theory Spec2Isabelle
  imports Main
begin

section \<open>Transport values used by the controller\<close>

text \<open>
  The controller of \<^verbatim>\<open>src/server/src/function/function.controller.ts\<close> answers every
  request in one of three ways: \<^verbatim>\<open>ResponseUtil.ok(data)\<close>, \<^verbatim>\<open>ResponseUtil.error(msg)\<close>,
  or a thrown \<^verbatim>\<open>HttpException(msg, status)\<close>.  The text of a message comes from
  \<^verbatim>\<open>i18n.t(key, { args })\<close>; the translation tables are not part of the controller, so a
  translated message is represented by its key and its arguments.  The string returned
  by \<^verbatim>\<open>dto.validate()\<close> is passed to \<^verbatim>\<open>ResponseUtil.error\<close> as it is.
\<close>

datatype i18n_arg = ArgStr string | ArgNum int

datatype message = i18n_t string "(string \<times> i18n_arg) list" | Raw string

datatype 'a ResponseUtil = ResponseUtil_ok 'a | ResponseUtil_error message

datatype HttpException = HttpException message nat

definition NOT_FOUND :: nat where
  "NOT_FOUND = 404"

text \<open>
  JavaScript truthiness of a value of type \<^verbatim>\<open>string | null | undefined\<close>, as tested by
  \<^verbatim>\<open>if (error)\<close> and \<^verbatim>\<open>if (!dto.code)\<close>: absent values and the empty string are falsy.
\<close>

definition truthy :: "string option \<Rightarrow> bool" where
  "truthy s = (case s of None \<Rightarrow> False | Some v \<Rightarrow> v \<noteq> [])"

section \<open>Request bodies\<close>

text \<open>
  The DTO classes are imported by the controller; it reads \<^verbatim>\<open>dto.name\<close> and the result of
  \<^verbatim>\<open>dto.validate()\<close> of a \<^verbatim>\<open>CreateFunctionDto\<close>, and \<^verbatim>\<open>dto.code\<close> of a
  \<^verbatim>\<open>CompileFunctionDto\<close>.  The result of \<^verbatim>\<open>validate()\<close> is a field of the model
  (\<^verbatim>\<open>null\<close> is \<open>None\<close>).
\<close>

record CreateFunctionDto =
  name :: string
  code :: string
  validate :: "string option"

record UpdateFunctionDto =
  update_code :: string

record CompileFunctionDto =
  compile_code :: "string option"

section \<open>Resource bundles\<close>

text \<open>
  \<^verbatim>\<open>bundle?.resource?.limitCountOfCloudFunction\<close>: each of the three levels may be absent.
\<close>

record BundleResource =
  limitCountOfCloudFunction :: "int option"

record ApplicationBundle =
  resource :: "BundleResource option"

definition bundle_limit :: "ApplicationBundle option \<Rightarrow> int option" where
  "bundle_limit bundle =
     (case bundle of
        None \<Rightarrow> None
      | Some b \<Rightarrow> (case resource b of
                     None \<Rightarrow> None
                   | Some r \<Rightarrow> limitCountOfCloudFunction r))"

text \<open>\<^verbatim>\<open>x || 0\<close> on an optional number: an absent value and the number 0 both give 0.\<close>

definition or_zero :: "int option \<Rightarrow> int" where
  "or_zero x = (case x of None \<Rightarrow> 0 | Some n \<Rightarrow> if n = 0 then 0 else n)"

definition MAX_FUNCTION_COUNT :: "ApplicationBundle option \<Rightarrow> int" where
  "MAX_FUNCTION_COUNT bundle = or_zero (bundle_limit bundle)"

section \<open>Injected services\<close>

text \<open>
  The controller is constructed with a \<^verbatim>\<open>FunctionService\<close> and a \<^verbatim>\<open>BundleService\<close>.
  Neither class is defined in the controller's file, so the controller is modelled over
  arbitrary services: \<open>'s\<close> is the state of the storage behind them, \<open>'f\<close> the type of a
  stored function and \<open>'r\<close> the type of a compile result.  The lookups read the state;
  the mutating methods return their result together with the new state.  A method that
  resolves to \<^verbatim>\<open>null\<close> returns \<open>None\<close>.

  The promise of \<^verbatim>\<open>compile\<close> settles in one of two ways, and the model has both: it
  rejects with an error of type \<open>'e\<close> (\<open>Inl\<close>) or it resolves with a result (\<open>Inr\<close>).
  Section 4.1 of the specification gives a failure to this call only ("fails with
  CompileError"); the other calls are modelled as resolving, and what is proved about
  their handlers is about what the handlers do with the resolved values.
\<close>

record ('s, 'f, 'e, 'r) FunctionService =
  findOne :: "'s \<Rightarrow> string \<Rightarrow> string \<Rightarrow> 'f option"
  count :: "'s \<Rightarrow> string \<Rightarrow> nat"
  create :: "'s \<Rightarrow> string \<Rightarrow> string \<Rightarrow> CreateFunctionDto \<Rightarrow> 'f option \<times> 's"
  update :: "'s \<Rightarrow> 'f \<Rightarrow> UpdateFunctionDto \<Rightarrow> 'f option \<times> 's"
  remove_func :: "'s \<Rightarrow> 'f \<Rightarrow> 'f option \<times> 's"
  compile :: "'s \<Rightarrow> 'f \<Rightarrow> CompileFunctionDto \<Rightarrow> ('e + 'r) \<times> 's"

record 's BundleService =
  findApplicationBundle :: "'s \<Rightarrow> string \<Rightarrow> ApplicationBundle option"

text \<open>
  Every awaited service call of a handler is recorded, in order, so that a statement such
  as "the quota check is not reached" is a statement about the handler's trace.
\<close>

datatype call =
    FindOne string string
  | FindApplicationBundle string
  | Count string
  | Create string string string
  | Update string string
  | Remove string string
  | Compile string string

type_synonym ('s, 'a) handled = "(HttpException + 'a ResponseUtil) \<times> call list \<times> 's"

text \<open>
  What leaves the compile handler as an exception: the \<^verbatim>\<open>HttpException\<close> it throws
  itself, or the error of a rejected \<^verbatim>\<open>await\<close>, which the handler does not catch.
\<close>

datatype 'e thrown = Http HttpException | Rejected 'e

type_synonym ('s, 'e, 'a) awaited = "('e thrown + 'a ResponseUtil) \<times> call list \<times> 's"

section \<open>FunctionController\<close>

definition FunctionController_create ::
  "('s, 'f, 'e, 'r) FunctionService \<Rightarrow> 's BundleService \<Rightarrow> string \<Rightarrow> CreateFunctionDto \<Rightarrow>
   string \<Rightarrow> 's \<Rightarrow> ('s, 'f) handled" where
  "FunctionController_create functionsService bundleService appid dto userid st =
     (let error = validate dto in
      if truthy error then
        (Inr (ResponseUtil_error (Raw (case error of Some e \<Rightarrow> e | None \<Rightarrow> []))), [], st)
      else
        (case findOne functionsService st appid (name dto) of
           Some found \<Rightarrow>
             (Inr (ResponseUtil_error
                     (i18n_t ''function.create.nameExist'' [(''name'', ArgStr (name dto))])),
              [FindOne appid (name dto)], st)
         | None \<Rightarrow>
             (let bundle = findApplicationBundle bundleService st appid;
                  max_count = MAX_FUNCTION_COUNT bundle;
                  cnt = count functionsService st appid;
                  tr = [FindOne appid (name dto), FindApplicationBundle appid, Count appid]
              in if int cnt \<ge> max_count then
                   (Inr (ResponseUtil_error
                           (i18n_t ''function.create.maxCount'' [(''count'', ArgNum max_count)])),
                    tr, st)
                 else
                   (case create functionsService st appid userid dto of
                      (None, st') \<Rightarrow>
                        (Inr (ResponseUtil_error (i18n_t ''function.create.error'' [])),
                         tr @ [Create appid userid (name dto)], st')
                    | (Some res, st') \<Rightarrow>
                        (Inr (ResponseUtil_ok res),
                         tr @ [Create appid userid (name dto)], st')))))"

definition FunctionController_findOne ::
  "('s, 'f, 'e, 'r) FunctionService \<Rightarrow> string \<Rightarrow> string \<Rightarrow> 's \<Rightarrow> ('s, 'f) handled" where
  "FunctionController_findOne functionsService appid nm st =
     (case findOne functionsService st appid nm of
        None \<Rightarrow>
          (Inl (HttpException (i18n_t ''function.common.notFound'' [(''name'', ArgStr nm)])
                  NOT_FOUND),
           [FindOne appid nm], st)
      | Some data \<Rightarrow> (Inr (ResponseUtil_ok data), [FindOne appid nm], st))"


definition FunctionController_remove ::
  "('s, 'f, 'e, 'r) FunctionService \<Rightarrow> string \<Rightarrow> string \<Rightarrow> 's \<Rightarrow> ('s, 'f) handled" where
  "FunctionController_remove functionsService appid nm st =
     (case findOne functionsService st appid nm of
        None \<Rightarrow>
          (Inl (HttpException (i18n_t ''function.common.notFound'' [(''name'', ArgStr nm)])
                  NOT_FOUND),
           [FindOne appid nm], st)
      | Some func \<Rightarrow>
          (case remove_func functionsService st func of
             (None, st') \<Rightarrow>
               (Inr (ResponseUtil_error (i18n_t ''function.delete.error'' [])),
                [FindOne appid nm, Remove appid nm], st')
           | (Some res, st') \<Rightarrow>
               (Inr (ResponseUtil_ok res), [FindOne appid nm, Remove appid nm], st')))"

definition FunctionController_compile ::
  "('s, 'f, 'e, 'r) FunctionService \<Rightarrow> string \<Rightarrow> string \<Rightarrow> CompileFunctionDto \<Rightarrow> 's \<Rightarrow>
   ('s, 'e, 'r) awaited" where
  "FunctionController_compile functionsService appid nm dto st =
     (if \<not> truthy (compile_code dto) then
        (Inr (ResponseUtil_error (i18n_t ''function.compile.codeRequired'' [])), [], st)
      else
        (case findOne functionsService st appid nm of
           None \<Rightarrow>
             (Inl (Http (HttpException
                           (i18n_t ''function.common.notFound'' [(''name'', ArgStr nm)])
                           NOT_FOUND)),
              [FindOne appid nm], st)
         | Some func \<Rightarrow>
             (case compile functionsService st func dto of
                (Inl e, st') \<Rightarrow>
                  (Inl (Rejected e), [FindOne appid nm, Compile appid nm], st')
              | (Inr res, st') \<Rightarrow>
                  (Inr (ResponseUtil_ok res), [FindOne appid nm, Compile appid nm], st'))))"

section \<open>Function Registry, Artifact Compiler and storage\<close>

text \<open>
  Modelled from the spec: the classes \<^verbatim>\<open>FunctionService\<close> and \<^verbatim>\<open>BundleService\<close>, the
  types of the records they store and the storage behind them are missing.  They are
  described by sections 3, 4.1, 4.2, 4.3 and 6 of the specification, and every
  definition of this section follows its words.  Section 3 gives the data model: a
  Function has its application, its name, its source text, a version counter and the
  reference to its latest artifact (absent until the first successful compile), and is
  soft-deleted; an Artifact is keyed by function and version and has a content hash.
  The store holds the functions, the artifact rows, the bundle of each application and
  the queue of reconciliation requests.
\<close>

record Artifact =
  artifact_appid :: string
  artifact_function :: string
  artifact_version :: nat
  contentHash :: string

record CloudFunction =
  func_appid :: string
  func_name :: string
  func_source :: string
  func_version :: nat
  currentArtifact :: "Artifact option"
  deleted :: bool
  createdBy :: string

datatype CompileError = CompileError string "string list"

record Database =
  funcs :: "CloudFunction list"
  artifacts :: "Artifact list"
  bundles :: "(string \<times> ApplicationBundle) list"
  reconcileQueue :: "string list"

text \<open>
  Modelled from the spec: the syntax, size-limit and runtime validation of the Artifact
  Compiler and its content hash are missing.  Section 4.1 names them without giving
  them, so they are the two fields of a compiler; the hash is taken over the artifact's
  key (function identity and version) and the source text.
\<close>

record Compiler =
  check_source :: "string \<Rightarrow> string \<Rightarrow> nat \<Rightarrow> string \<Rightarrow> CompileError option"
  hash_source :: "string \<Rightarrow> string \<Rightarrow> nat \<Rightarrow> string \<Rightarrow> string"

text \<open>
  Modelled from the spec: \<^verbatim>\<open>BundleService.findApplicationBundle\<close> is missing.  Section 6:
  a resource-bundle lookup per application.
\<close>

definition BundleService_findApplicationBundle ::
  "Database \<Rightarrow> string \<Rightarrow> ApplicationBundle option" where
  "BundleService_findApplicationBundle db appid = map_of (bundles db) appid"

definition is_active :: "string \<Rightarrow> string \<Rightarrow> CloudFunction \<Rightarrow> bool" where
  "is_active appid nm f = (func_appid f = appid \<and> func_name f = nm \<and> \<not> deleted f)"

text \<open>
  Modelled from the spec: \<^verbatim>\<open>FunctionService.findOne\<close> is missing.  Section 3: a function
  is unique by (applicationId, name) and is soft-deleted on removal; section 8: a deleted
  function is not found.
\<close>

definition FunctionService_findOne ::
  "Database \<Rightarrow> string \<Rightarrow> string \<Rightarrow> CloudFunction option" where
  "FunctionService_findOne db appid nm = find (is_active appid nm) (funcs db)"

text \<open>
  Modelled from the spec: \<^verbatim>\<open>FunctionService.count\<close> is missing.  Section 3, UsageCounter:
  the per-application count of active functions.
\<close>

definition FunctionService_count :: "Database \<Rightarrow> string \<Rightarrow> nat" where
  "FunctionService_count db appid =
     length (filter (\<lambda>f. func_appid f = appid \<and> \<not> deleted f) (funcs db))"

text \<open>
  Modelled from the spec: \<^verbatim>\<open>FunctionService.create\<close> is missing.  Section 4.3: persists
  the Function with version 0 and no artifact, and returns it.
\<close>

definition FunctionService_create ::
  "Database \<Rightarrow> string \<Rightarrow> string \<Rightarrow> CreateFunctionDto \<Rightarrow> CloudFunction option \<times> Database" where
  "FunctionService_create db appid userid dto =
     (let f = \<lparr>func_appid = appid, func_name = name dto, func_source = code dto,
                func_version = 0, currentArtifact = None, deleted = False,
                createdBy = userid\<rparr>
      in (Some f, db\<lparr>funcs := funcs db @ [f]\<rparr>))"

text \<open>
  Modelled from the spec: \<^verbatim>\<open>FunctionService.update\<close> is missing.  Section 4.3: stores the
  new source and increments the version; does not recompile.
\<close>

definition FunctionService_update ::
  "Database \<Rightarrow> CloudFunction \<Rightarrow> UpdateFunctionDto \<Rightarrow> CloudFunction option \<times> Database" where
  "FunctionService_update db func dto =
     (let g = func\<lparr>func_source := update_code dto, func_version := Suc (func_version func)\<rparr>
      in (Some g,
          db\<lparr>funcs :=
               map (\<lambda>f. if is_active (func_appid func) (func_name func) f then g else f)
                 (funcs db)\<rparr>))"

text \<open>
  Modelled from the spec: \<^verbatim>\<open>FunctionService.remove\<close> is missing.  Section 4.3:
  soft-deletes the function.  The usage counter and the routes are derived from the
  functions, so the soft-deletion is the whole state change.
\<close>

definition FunctionService_remove ::
  "Database \<Rightarrow> CloudFunction \<Rightarrow> CloudFunction option \<times> Database" where
  "FunctionService_remove db func =
     (Some func,
      db\<lparr>funcs :=
           map (\<lambda>f. if is_active (func_appid func) (func_name func) f
                     then f\<lparr>deleted := True\<rparr> else f)
             (funcs db)\<rparr>)"

text \<open>
  Modelled from the spec: the Artifact Compiler is missing.  Section 4.1: validates the
  source, produces the content hash, persists the artifact as one new immutable row and
  returns it without touching the Function; fails with a CompileError (\<open>Inl\<close>, the
  rejected call).
\<close>

definition ArtifactCompiler_compile ::
  "Compiler \<Rightarrow> Database \<Rightarrow> CloudFunction \<Rightarrow> string \<Rightarrow> (CompileError + Artifact) \<times> Database" where
  "ArtifactCompiler_compile cmp db func sourceCode =
     (case check_source cmp (func_appid func) (func_name func) (func_version func) sourceCode of
        Some err \<Rightarrow> (Inl err, db)
      | None \<Rightarrow>
          (let a = \<lparr>artifact_appid = func_appid func, artifact_function = func_name func,
                     artifact_version = func_version func,
                     contentHash = hash_source cmp (func_appid func) (func_name func)
                                     (func_version func) sourceCode\<rparr>
           in (Inr a, db\<lparr>artifacts := artifacts db @ [a]\<rparr>)))"

text \<open>
  Modelled from the spec: \<^verbatim>\<open>FunctionService.compile\<close> is missing.  Section 4.3: delegates
  to the Artifact Compiler, then sets the Function's currentArtifact to the new artifact
  and enqueues a reconciliation request for the owning application; on a compiler
  failure the call fails with the compiler's error and the Function's currentArtifact
  is left unchanged.
\<close>

definition FunctionService_compile ::
  "Compiler \<Rightarrow> Database \<Rightarrow> CloudFunction \<Rightarrow> CompileFunctionDto \<Rightarrow>
   (CompileError + Artifact) \<times> Database" where
  "FunctionService_compile cmp db func dto =
     (case ArtifactCompiler_compile cmp db func
             (case compile_code dto of Some c \<Rightarrow> c | None \<Rightarrow> []) of
        (Inl err, db') \<Rightarrow> (Inl err, db')
      | (Inr a, db') \<Rightarrow>
          (Inr a,
           db'\<lparr>funcs :=
                 map (\<lambda>f. if is_active (func_appid func) (func_name func) f
                           then f\<lparr>currentArtifact := Some a\<rparr> else f)
                   (funcs db'),
               reconcileQueue := reconcileQueue db' @ [func_appid func]\<rparr>))"

definition functionService ::
  "Compiler \<Rightarrow> (Database, CloudFunction, CompileError, Artifact) FunctionService" where
  "functionService cmp =
     \<lparr>findOne = FunctionService_findOne, count = FunctionService_count,
      create = FunctionService_create, update = FunctionService_update,
      remove_func = FunctionService_remove, compile = FunctionService_compile cmp\<rparr>"

definition bundleService :: "Database BundleService" where
  "bundleService = \<lparr>findApplicationBundle = BundleService_findApplicationBundle\<rparr>"

section \<open>Fixtures for the scenarios of section 8 of the specification\<close>

text \<open>A compiler that rejects exactly the source text of the failing-compile scenario.\<close>

definition scenario_compiler :: Compiler where
  "scenario_compiler =
     \<lparr>check_source = (\<lambda>appid nm v src.
          if src = ''syntax error'' then Some (CompileError ''syntax'' [''unexpected token''])
          else None),
      hash_source = (\<lambda>appid nm v src. appid @ ''/'' @ nm @ ''#'' @ src)\<rparr>"

definition bundle_with_limit :: "int \<Rightarrow> ApplicationBundle" where
  "bundle_with_limit L = \<lparr>resource = Some \<lparr>limitCountOfCloudFunction = Some L\<rparr>\<rparr>"

definition empty_db :: "(string \<times> ApplicationBundle) list \<Rightarrow> Database" where
  "empty_db bs = \<lparr>funcs = [], artifacts = [], bundles = bs, reconcileQueue = []\<rparr>"

definition create_dto :: "string \<Rightarrow> CreateFunctionDto" where
  "create_dto nm = \<lparr>name = nm, code = ''export default 1'', validate = None\<rparr>"

definition stored :: "string \<Rightarrow> string \<Rightarrow> Artifact option \<Rightarrow> CloudFunction" where
  "stored appid nm art =
     \<lparr>func_appid = appid, func_name = nm, func_source = ''export default 1'',
      func_version = 0, currentArtifact = art, deleted = False, createdBy = ''u1''\<rparr>"

definition scenario_db :: "string list \<Rightarrow> Database" where
  "scenario_db names =
     \<lparr>funcs = map (\<lambda>nm. stored ''A'' nm None) names,
      artifacts = [], bundles = [(''A'', bundle_with_limit 2)], reconcileQueue = []\<rparr>"

definition scenario_create :: "string \<Rightarrow> Database \<Rightarrow> (Database, CloudFunction) handled" where
  "scenario_create nm db =
     FunctionController_create (functionService scenario_compiler) bundleService ''A''
       (create_dto nm) ''u1'' db"

definition deployed_artifact :: Artifact where
  "deployed_artifact =
     \<lparr>artifact_appid = ''A'', artifact_function = ''f1'', artifact_version = 0,
      contentHash = ''A/f1#export default 1''\<rparr>"

definition deployed_db :: Database where
  "deployed_db =
     \<lparr>funcs = [stored ''A'' ''f1'' (Some deployed_artifact)], artifacts = [deployed_artifact],
      bundles = [(''A'', bundle_with_limit 2)], reconcileQueue = [''A'']\<rparr>"

definition scenario_compile ::
  "string \<Rightarrow> Database \<Rightarrow> (Database, CompileError, Artifact) awaited" where
  "scenario_compile src db =
     FunctionController_compile (functionService scenario_compiler) ''A'' ''f1''
       \<lparr>compile_code = Some src\<rparr> db"

definition scenario_remove :: "string \<Rightarrow> Database \<Rightarrow> (Database, CloudFunction) handled" where
  "scenario_remove nm db = FunctionController_remove (functionService scenario_compiler) ''A'' nm db"


definition deleted_db :: Database where
  "deleted_db = (scenario_db [''f1''])\<lparr>funcs := [(stored ''A'' ''f1'' None)\<lparr>deleted := True\<rparr>]\<rparr>"

section \<open>Properties of the controller\<close>

subsection \<open>The branches of the create handler\<close>

lemma create_invalid:
  "truthy (validate dto) \<Longrightarrow>
   FunctionController_create fs bs appid dto userid st =
     (Inr (ResponseUtil_error (Raw (case validate dto of Some e \<Rightarrow> e | None \<Rightarrow> []))), [], st)"
  by (simp add: FunctionController_create_def)

lemma create_duplicate:
  "\<not> truthy (validate dto) \<Longrightarrow> findOne fs st appid (name dto) = Some found \<Longrightarrow>
   FunctionController_create fs bs appid dto userid st =
     (Inr (ResponseUtil_error
             (i18n_t ''function.create.nameExist'' [(''name'', ArgStr (name dto))])),
      [FindOne appid (name dto)], st)"
  by (simp add: FunctionController_create_def)

lemma create_denied:
  "\<not> truthy (validate dto) \<Longrightarrow> findOne fs st appid (name dto) = None \<Longrightarrow>
   MAX_FUNCTION_COUNT (findApplicationBundle bs st appid) \<le> int (count fs st appid) \<Longrightarrow>
   FunctionController_create fs bs appid dto userid st =
     (Inr (ResponseUtil_error
             (i18n_t ''function.create.maxCount''
                [(''count'', ArgNum (MAX_FUNCTION_COUNT (findApplicationBundle bs st appid)))])),
      [FindOne appid (name dto), FindApplicationBundle appid, Count appid], st)"
  by (simp add: FunctionController_create_def Let_def)

lemma create_allowed:
  "\<not> truthy (validate dto) \<Longrightarrow> findOne fs st appid (name dto) = None \<Longrightarrow>
   int (count fs st appid) < MAX_FUNCTION_COUNT (findApplicationBundle bs st appid) \<Longrightarrow>
   create fs st appid userid dto = (r, st') \<Longrightarrow>
   FunctionController_create fs bs appid dto userid st =
     (Inr (case r of None \<Rightarrow> ResponseUtil_error (i18n_t ''function.create.error'' [])
                   | Some res \<Rightarrow> ResponseUtil_ok res),
      [FindOne appid (name dto), FindApplicationBundle appid, Count appid,
       Create appid userid (name dto)], st')"
  by (simp add: FunctionController_create_def Let_def split: option.splits)

lemma create_ok_cases:
  "fst (FunctionController_create fs bs appid dto userid st) = Inr (ResponseUtil_ok f) \<Longrightarrow>
   \<not> truthy (validate dto) \<and> findOne fs st appid (name dto) = None \<and>
   int (count fs st appid) < MAX_FUNCTION_COUNT (findApplicationBundle bs st appid) \<and>
   fst (create fs st appid userid dto) = Some f"
  by (auto simp: FunctionController_create_def Let_def split: if_splits option.splits prod.splits)

lemma create_Count_cases:
  "Count a \<in> set (fst (snd (FunctionController_create fs bs appid dto userid st))) \<Longrightarrow>
   \<not> truthy (validate dto) \<and> findOne fs st appid (name dto) = None"
  by (auto simp: FunctionController_create_def Let_def split: if_splits option.splits prod.splits)

lemma create_state_cases:
  "snd (snd (FunctionController_create fs bs appid dto userid st)) \<noteq> st \<Longrightarrow>
   \<not> truthy (validate dto) \<and> findOne fs st appid (name dto) = None \<and>
   int (count fs st appid) < MAX_FUNCTION_COUNT (findApplicationBundle bs st appid)"
  by (auto simp: FunctionController_create_def Let_def split: if_splits option.splits prod.splits)

lemma MAX_FUNCTION_COUNT_Some: "bundle_limit b = Some L \<Longrightarrow> MAX_FUNCTION_COUNT b = L"
  by (simp add: MAX_FUNCTION_COUNT_def or_zero_def)

lemmas eval_defs = scenario_create_def scenario_db_def FunctionController_create_def
  functionService_def bundleService_def FunctionService_findOne_def FunctionService_count_def
  FunctionService_create_def BundleService_findApplicationBundle_def MAX_FUNCTION_COUNT_def
  or_zero_def bundle_limit_def truthy_def create_dto_def empty_db_def bundle_with_limit_def
  is_active_def stored_def Let_def

subsection \<open>The branches of the compile and remove handlers\<close>

lemma compile_resolved:
  "truthy (compile_code dto) \<Longrightarrow> findOne fs st appid nm = Some func \<Longrightarrow>
   compile fs st func dto = (Inr res, st') \<Longrightarrow>
   FunctionController_compile fs appid nm dto st =
     (Inr (ResponseUtil_ok res), [FindOne appid nm, Compile appid nm], st')"
  by (simp add: FunctionController_compile_def)


lemma compile_found_state:
  "truthy (compile_code dto) \<Longrightarrow> findOne fs st appid nm = Some func \<Longrightarrow>
   snd (snd (FunctionController_compile fs appid nm dto st)) = snd (compile fs st func dto)"
  by (simp add: FunctionController_compile_def split: prod.splits sum.splits)

lemma compile_not_found:
  "truthy (compile_code dto) \<Longrightarrow> findOne fs st appid nm = None \<Longrightarrow>
   FunctionController_compile fs appid nm dto st =
     (Inl (Http (HttpException (i18n_t ''function.common.notFound'' [(''name'', ArgStr nm)])
                   NOT_FOUND)),
      [FindOne appid nm], st)"
  by (simp add: FunctionController_compile_def)

lemma compile_no_code:
  "\<not> truthy (compile_code dto) \<Longrightarrow>
   FunctionController_compile fs appid nm dto st =
     (Inr (ResponseUtil_error (i18n_t ''function.compile.codeRequired'' [])), [], st)"
  by (simp add: FunctionController_compile_def)

lemma remove_not_found:
  "findOne fs st appid nm = None \<Longrightarrow>
   FunctionController_remove fs appid nm st =
     (Inl (HttpException (i18n_t ''function.common.notFound'' [(''name'', ArgStr nm)]) NOT_FOUND),
      [FindOne appid nm], st)"
  by (simp add: FunctionController_remove_def)

subsection \<open>The Function Registry of the specification\<close>

lemma findOne_is_active:
  "FunctionService_findOne db a n = Some func \<Longrightarrow> func_appid func = a \<and> func_name func = n \<and> \<not> deleted func"
  by (auto simp: FunctionService_findOne_def find_Some_iff is_active_def)

lemma find_soft_deleted:
  "find (is_active a n) (map (\<lambda>f. if is_active a n f then f\<lparr>deleted := True\<rparr> else f) xs) = None"
  by (induction xs) (auto simp: is_active_def)

lemma findOne_after_remove:
  assumes "FunctionService_findOne db a n = Some func"
  shows "FunctionService_findOne (snd (FunctionService_remove db func)) a n = None"
  using findOne_is_active [OF assms]
  by (simp add: FunctionService_findOne_def FunctionService_remove_def find_soft_deleted)

lemma findOne_after_controller_remove:
  "FunctionService_findOne
     (snd (snd (FunctionController_remove (functionService cmp) appid nm db))) appid nm = None"
proof (cases "FunctionService_findOne db appid nm")
  case None
  then show ?thesis
    by (simp add: FunctionController_remove_def functionService_def)
next
  case (Some func)
  then show ?thesis
    using findOne_after_remove [OF Some]
    by (simp add: FunctionController_remove_def functionService_def FunctionService_remove_def)
qed

lemma ArtifactCompiler_failure_state:
  "fst (ArtifactCompiler_compile cmp db func src) = Inl err \<Longrightarrow>
   snd (ArtifactCompiler_compile cmp db func src) = db"
  by (auto simp: ArtifactCompiler_compile_def Let_def split: option.splits)

lemma FunctionService_compile_failure_state:
  "fst (FunctionService_compile cmp db func dto) = Inl err \<Longrightarrow>
   snd (FunctionService_compile cmp db func dto) = db"
  by (auto simp: FunctionService_compile_def ArtifactCompiler_compile_def Let_def
      split: option.splits prod.splits sum.splits)

lemmas compile_eval = scenario_compile_def deployed_db_def deployed_artifact_def
  FunctionController_compile_def FunctionService_compile_def ArtifactCompiler_compile_def
  scenario_compiler_def

lemmas remove_eval = scenario_remove_def deleted_db_def FunctionController_remove_def
  FunctionService_remove_def NOT_FOUND_def

subsection \<open>Claims\<close>

text \<open>
  C1.  Where the application's bundle limits the function count to \<open>L\<close>: a CreateFunction
  call that succeeds found the current count strictly below \<open>L\<close>; with the count at or
  above \<open>L\<close> nothing is stored, and a request that reaches the quota check (its body
  passes validation and its name is free, the two tests the handler makes first) is
  answered with the limit-reached error.  In the scenario of section 8, with the Function
  Registry of the specification, limit 2 and no functions: creating \<open>f1\<close> and \<open>f2\<close>
  succeeds, creating \<open>f3\<close> is denied and leaves the two functions as they are.
\<close>

theorem create_quota_gate:
  assumes "bundle_limit (findApplicationBundle bs st appid) = Some L"
  shows "(\<forall>f. fst (FunctionController_create fs bs appid dto userid st) = Inr (ResponseUtil_ok f)
              \<longrightarrow> int (count fs st appid) < L)
       \<and> (L \<le> int (count fs st appid) \<longrightarrow>
            snd (snd (FunctionController_create fs bs appid dto userid st)) = st)
       \<and> (L \<le> int (count fs st appid) \<and> \<not> truthy (validate dto) \<and>
          findOne fs st appid (name dto) = None \<longrightarrow>
            FunctionController_create fs bs appid dto userid st =
              (Inr (ResponseUtil_error
                      (i18n_t ''function.create.maxCount'' [(''count'', ArgNum L)])),
               [FindOne appid (name dto), FindApplicationBundle appid, Count appid], st))
       \<and> fst (scenario_create ''f1'' (scenario_db [])) = Inr (ResponseUtil_ok (stored ''A'' ''f1'' None))
       \<and> snd (snd (scenario_create ''f1'' (scenario_db []))) = scenario_db [''f1'']
       \<and> fst (scenario_create ''f2'' (scenario_db [''f1''])) = Inr (ResponseUtil_ok (stored ''A'' ''f2'' None))
       \<and> snd (snd (scenario_create ''f2'' (scenario_db [''f1'']))) = scenario_db [''f1'', ''f2'']
       \<and> fst (scenario_create ''f3'' (scenario_db [''f1'', ''f2''])) =
           Inr (ResponseUtil_error (i18n_t ''function.create.maxCount'' [(''count'', ArgNum 2)]))
       \<and> snd (snd (scenario_create ''f3'' (scenario_db [''f1'', ''f2'']))) = scenario_db [''f1'', ''f2'']"
proof -
  have m: "MAX_FUNCTION_COUNT (findApplicationBundle bs st appid) = L"
    using assms by (rule MAX_FUNCTION_COUNT_Some)
  have a: "\<forall>f. fst (FunctionController_create fs bs appid dto userid st) = Inr (ResponseUtil_ok f)
              \<longrightarrow> int (count fs st appid) < L"
    using create_ok_cases [of fs bs appid dto userid st] m by auto
  have b: "L \<le> int (count fs st appid) \<longrightarrow>
            snd (snd (FunctionController_create fs bs appid dto userid st)) = st"
    using create_state_cases [of fs bs appid dto userid st] m by fastforce
  have c: "L \<le> int (count fs st appid) \<and> \<not> truthy (validate dto) \<and>
          findOne fs st appid (name dto) = None \<longrightarrow>
            FunctionController_create fs bs appid dto userid st =
              (Inr (ResponseUtil_error
                      (i18n_t ''function.create.maxCount'' [(''count'', ArgNum L)])),
               [FindOne appid (name dto), FindApplicationBundle appid, Count appid], st)"
    using create_denied [of dto fs st appid bs userid] m by auto
  have s1: "scenario_create ''f1'' (scenario_db []) =
      (Inr (ResponseUtil_ok (stored ''A'' ''f1'' None)),
       [FindOne ''A'' ''f1'', FindApplicationBundle ''A'', Count ''A'', Create ''A'' ''u1'' ''f1''],
       scenario_db [''f1''])"
    by (simp add: eval_defs)
  have s2: "scenario_create ''f2'' (scenario_db [''f1'']) =
      (Inr (ResponseUtil_ok (stored ''A'' ''f2'' None)),
       [FindOne ''A'' ''f2'', FindApplicationBundle ''A'', Count ''A'', Create ''A'' ''u1'' ''f2''],
       scenario_db [''f1'', ''f2''])"
    by (simp add: eval_defs)
  have s3: "scenario_create ''f3'' (scenario_db [''f1'', ''f2'']) =
      (Inr (ResponseUtil_error (i18n_t ''function.create.maxCount'' [(''count'', ArgNum 2)])),
       [FindOne ''A'' ''f3'', FindApplicationBundle ''A'', Count ''A''],
       scenario_db [''f1'', ''f2''])"
    by (simp add: eval_defs)
  show ?thesis using a b c by (simp add: s1 s2 s3)
qed

theorem create_quota_gate_witness:
  "bundle_limit (findApplicationBundle bundleService (scenario_db [''f1'', ''f2'']) ''A'') = Some 2 \<and>
   2 \<le> int (count (functionService scenario_compiler) (scenario_db [''f1'', ''f2'']) ''A'') \<and>
   \<not> truthy (validate (create_dto ''f3'')) \<and>
   findOne (functionService scenario_compiler) (scenario_db [''f1'', ''f2'']) ''A''
     (name (create_dto ''f3'')) = None \<and>
   FunctionController_create (functionService scenario_compiler) bundleService ''A''
       (create_dto ''f3'') ''u1'' (scenario_db [''f1'', ''f2'']) =
     (Inr (ResponseUtil_error (i18n_t ''function.create.maxCount'' [(''count'', ArgNum 2)])),
      [FindOne ''A'' ''f3'', FindApplicationBundle ''A'', Count ''A''],
      scenario_db [''f1'', ''f2'']) \<and>
   bundle_limit (findApplicationBundle bundleService (scenario_db [''f1'']) ''A'') = Some 2 \<and>
   fst (FunctionController_create (functionService scenario_compiler) bundleService ''A''
          (create_dto ''f2'') ''u1'' (scenario_db [''f1''])) =
     Inr (ResponseUtil_ok (stored ''A'' ''f2'' None)) \<and>
   int (count (functionService scenario_compiler) (scenario_db [''f1'']) ''A'') < 2"
proof -
  have h: "bundle_limit (findApplicationBundle bundleService (scenario_db [''f1'', ''f2'']) ''A'')
             = Some 2"
    by (simp add: eval_defs)
  have c: "2 \<le> int (count (functionService scenario_compiler) (scenario_db [''f1'', ''f2'']) ''A'')"
    by (simp add: eval_defs)
  have v: "\<not> truthy (validate (create_dto ''f3''))"
    by (simp add: eval_defs)
  have n: "findOne (functionService scenario_compiler) (scenario_db [''f1'', ''f2'']) ''A''
             (name (create_dto ''f3'')) = None"
    by (simp add: eval_defs)
  have h': "bundle_limit (findApplicationBundle bundleService (scenario_db [''f1'']) ''A'') = Some 2"
    by (simp add: eval_defs)
  have ok: "fst (FunctionController_create (functionService scenario_compiler) bundleService ''A''
          (create_dto ''f2'') ''u1'' (scenario_db [''f1''])) =
     Inr (ResponseUtil_ok (stored ''A'' ''f2'' None))"
    by (simp add: eval_defs)
  note denied = create_quota_gate [OF h, of "functionService scenario_compiler"
      "create_dto ''f3''" "''u1''", THEN conjunct2, THEN conjunct2, THEN conjunct1, rule_format,
      OF conjI [OF c conjI [OF v n]]]
  note below = create_quota_gate [OF h', of "functionService scenario_compiler"
      "create_dto ''f2''" "''u1''", THEN conjunct1, rule_format, OF ok]
  have n3: "name (create_dto ''f3'') = ''f3''"
    by (simp add: create_dto_def)
  show ?thesis
    using h c v n denied h' ok below unfolding n3 by blast
qed

text \<open>
  C10.  CompileFunction tests the code body before it looks the function up: whatever
  the services and the storage are, a request whose code is absent or empty is answered
  with the code-required error; no service is called (so the answer is never NotFound,
  also when no function of that name exists) and the state is untouched.
\<close>

theorem compile_code_required_first:
  assumes "compile_code dto = None \<or> compile_code dto = Some []"
  shows "FunctionController_compile functionsService appid nm dto st =
           (Inr (ResponseUtil_error (i18n_t ''function.compile.codeRequired'' [])), [], st)"
  using assms by (auto simp: FunctionController_compile_def truthy_def)

theorem compile_code_required_first_witness:
  "(compile_code \<lparr>compile_code = None\<rparr> = None \<or>
      compile_code \<lparr>compile_code = None\<rparr> = Some []) \<and>
   FunctionService_findOne (empty_db []) ''A'' ''f1'' = None \<and>
   FunctionController_compile (functionService scenario_compiler) ''A'' ''f1''
       \<lparr>compile_code = None\<rparr> (empty_db []) =
     (Inr (ResponseUtil_error (i18n_t ''function.compile.codeRequired'' [])), [], empty_db [])"
proof -
  have h: "compile_code \<lparr>compile_code = None\<rparr> = None \<or>
           compile_code \<lparr>compile_code = None\<rparr> = Some []"
    by simp
  have "FunctionService_findOne (empty_db []) ''A'' ''f1'' = None"
    by (simp add: FunctionService_findOne_def empty_db_def)
  with h compile_code_required_first [OF h, of "functionService scenario_compiler" "''A''" "''f1''" "empty_db []"]
  show ?thesis by simp
qed

text \<open>
  C2.  For a CreateFunction request that passes the handler's validation: when a function
  named (appid, name) exists, the answer is the name-exists error, the only service call
  made is the lookup of the name (neither the bundle lookup nor the count of the quota
  check is reached) and the state is the one before the call; when the name is free, the
  bundle lookup and the count follow the name lookup, and, when the count is below the
  limit, the function that the service stored is returned together with the state the
  service left.
\<close>

theorem create_duplicate_name_first:
  assumes "\<not> truthy (validate dto)"
  shows "(\<forall>found. findOne fs st appid (name dto) = Some found \<longrightarrow>
            FunctionController_create fs bs appid dto userid st =
              (Inr (ResponseUtil_error
                      (i18n_t ''function.create.nameExist'' [(''name'', ArgStr (name dto))])),
               [FindOne appid (name dto)], st))
       \<and> (findOne fs st appid (name dto) = None \<longrightarrow>
            take 3 (fst (snd (FunctionController_create fs bs appid dto userid st))) =
              [FindOne appid (name dto), FindApplicationBundle appid, Count appid])
       \<and> (\<forall>res st'. findOne fs st appid (name dto) = None \<and>
            int (count fs st appid) < MAX_FUNCTION_COUNT (findApplicationBundle bs st appid) \<and>
            create fs st appid userid dto = (Some res, st') \<longrightarrow>
            FunctionController_create fs bs appid dto userid st =
              (Inr (ResponseUtil_ok res),
               [FindOne appid (name dto), FindApplicationBundle appid, Count appid,
                Create appid userid (name dto)], st'))
       \<and> (Count appid \<in> set (fst (snd (FunctionController_create fs bs appid dto userid st)))
            \<longrightarrow> findOne fs st appid (name dto) = None)"
proof -
  have d: "Count appid \<in> set (fst (snd (FunctionController_create fs bs appid dto userid st)))
            \<longrightarrow> findOne fs st appid (name dto) = None"
    using create_Count_cases [of appid fs bs appid dto userid st] by blast
  have a: "\<forall>found. findOne fs st appid (name dto) = Some found \<longrightarrow>
            FunctionController_create fs bs appid dto userid st =
              (Inr (ResponseUtil_error
                      (i18n_t ''function.create.nameExist'' [(''name'', ArgStr (name dto))])),
               [FindOne appid (name dto)], st)"
    using assms by (simp add: create_duplicate)
  have b: "findOne fs st appid (name dto) = None \<longrightarrow>
            take 3 (fst (snd (FunctionController_create fs bs appid dto userid st))) =
              [FindOne appid (name dto), FindApplicationBundle appid, Count appid]"
    using assms
    by (simp add: FunctionController_create_def Let_def split: prod.splits option.splits)
  have c: "\<forall>res st'. findOne fs st appid (name dto) = None \<and>
            int (count fs st appid) < MAX_FUNCTION_COUNT (findApplicationBundle bs st appid) \<and>
            create fs st appid userid dto = (Some res, st') \<longrightarrow>
            FunctionController_create fs bs appid dto userid st =
              (Inr (ResponseUtil_ok res),
               [FindOne appid (name dto), FindApplicationBundle appid, Count appid,
                Create appid userid (name dto)], st')"
    using assms create_allowed [of dto fs st appid bs userid] by auto
  show ?thesis using a b c d by blast
qed

theorem create_duplicate_name_first_witness:
  "\<not> truthy (validate (create_dto ''f1'')) \<and>
   findOne (functionService scenario_compiler) (scenario_db [''f1'']) ''A''
     (name (create_dto ''f1'')) = Some (stored ''A'' ''f1'' None) \<and>
   FunctionController_create (functionService scenario_compiler) bundleService ''A''
       (create_dto ''f1'') ''u1'' (scenario_db [''f1'']) =
     (Inr (ResponseUtil_error (i18n_t ''function.create.nameExist'' [(''name'', ArgStr ''f1'')])),
      [FindOne ''A'' ''f1''], scenario_db [''f1'']) \<and>
   \<not> truthy (validate (create_dto ''f2'')) \<and>
   findOne (functionService scenario_compiler) (scenario_db [''f1'']) ''A''
     (name (create_dto ''f2'')) = None \<and>
   int (count (functionService scenario_compiler) (scenario_db [''f1'']) ''A'')
     < MAX_FUNCTION_COUNT (findApplicationBundle bundleService (scenario_db [''f1'']) ''A'') \<and>
   create (functionService scenario_compiler) (scenario_db [''f1'']) ''A'' ''u1''
       (create_dto ''f2'') = (Some (stored ''A'' ''f2'' None), scenario_db [''f1'', ''f2'']) \<and>
   FunctionController_create (functionService scenario_compiler) bundleService ''A''
       (create_dto ''f2'') ''u1'' (scenario_db [''f1'']) =
     (Inr (ResponseUtil_ok (stored ''A'' ''f2'' None)),
      [FindOne ''A'' ''f2'', FindApplicationBundle ''A'', Count ''A'', Create ''A'' ''u1'' ''f2''],
      scenario_db [''f1'', ''f2'']) \<and>
   FunctionService_findOne (scenario_db [''f1'', ''f2'']) ''A'' ''f2'' = Some (stored ''A'' ''f2'' None)"
proof -
  have v1: "\<not> truthy (validate (create_dto ''f1''))"
    by (simp add: eval_defs)
  have f1: "findOne (functionService scenario_compiler) (scenario_db [''f1'']) ''A''
              (name (create_dto ''f1'')) = Some (stored ''A'' ''f1'' None)"
    by (simp add: eval_defs)
  have v2: "\<not> truthy (validate (create_dto ''f2''))"
    by (simp add: eval_defs)
  have f2: "findOne (functionService scenario_compiler) (scenario_db [''f1'']) ''A''
              (name (create_dto ''f2'')) = None"
    by (simp add: eval_defs)
  have q: "int (count (functionService scenario_compiler) (scenario_db [''f1'']) ''A'')
     < MAX_FUNCTION_COUNT (findApplicationBundle bundleService (scenario_db [''f1'']) ''A'')"
    by (simp add: eval_defs)
  have c: "create (functionService scenario_compiler) (scenario_db [''f1'']) ''A'' ''u1''
       (create_dto ''f2'') = (Some (stored ''A'' ''f2'' None), scenario_db [''f1'', ''f2''])"
    by (simp add: eval_defs)
  have p: "FunctionService_findOne (scenario_db [''f1'', ''f2'']) ''A'' ''f2'' =
             Some (stored ''A'' ''f2'' None)"
    by (simp add: eval_defs)
  note dup = create_duplicate_name_first [OF v1, of "functionService scenario_compiler"
      "scenario_db [''f1'']" "''A''" bundleService "''u1''", THEN conjunct1, rule_format, OF f1]
  note free = create_duplicate_name_first [OF v2, of "functionService scenario_compiler"
      "scenario_db [''f1'']" "''A''" bundleService "''u1''", THEN conjunct2, THEN conjunct2,
      THEN conjunct1, rule_format, OF conjI [OF f2 conjI [OF q c]]]
  have n1: "name (create_dto ''f1'') = ''f1''" and n2: "name (create_dto ''f2'') = ''f2''"
    by (simp_all add: create_dto_def)
  show ?thesis
    using dup free v1 f1 v2 f2 q c p unfolding n1 n2 by blast
qed

text \<open>
  C6, as stated, fails.  With limit 2, a denied request gets the same answer when the
  application has two functions and when it has three: the message carries the argument
  \<open>count = 2\<close>, the limit, and nothing of the current count.
\<close>

theorem create_denial_omits_current_count:
  "fst (scenario_create ''f9'' (scenario_db [''f1'', ''f2''])) =
     Inr (ResponseUtil_error (i18n_t ''function.create.maxCount'' [(''count'', ArgNum 2)])) \<and>
   fst (scenario_create ''f9'' (scenario_db [''f1'', ''f2'', ''f3''])) =
     Inr (ResponseUtil_error (i18n_t ''function.create.maxCount'' [(''count'', ArgNum 2)])) \<and>
   FunctionService_count (scenario_db [''f1'', ''f2'']) ''A'' = 2 \<and>
   FunctionService_count (scenario_db [''f1'', ''f2'', ''f3'']) ''A'' = 3"
  by (simp add: eval_defs)

text \<open>
  C6, amended.  Whenever CreateFunction is answered with the limit-reached error, its
  message carries exactly one argument, named \<open>count\<close>, whose value is the effective
  limit (the bundle's limitCountOfCloudFunction, 0 when it is absent); the current count
  is at or above that limit, and the state is unchanged.
\<close>

theorem create_denial_carries_limit:
  assumes "fst (FunctionController_create fs bs appid dto userid st) =
             Inr (ResponseUtil_error (i18n_t ''function.create.maxCount'' args))"
  shows "args = [(''count'', ArgNum (MAX_FUNCTION_COUNT (findApplicationBundle bs st appid)))]
       \<and> MAX_FUNCTION_COUNT (findApplicationBundle bs st appid) \<le> int (count fs st appid)
       \<and> snd (snd (FunctionController_create fs bs appid dto userid st)) = st"
  using assms
  by (auto simp: FunctionController_create_def Let_def split: if_splits option.splits prod.splits)

theorem create_denial_carries_limit_witness:
  "fst (FunctionController_create (functionService scenario_compiler) bundleService ''A''
          (create_dto ''f9'') ''u1'' (scenario_db [''f1'', ''f2'', ''f3''])) =
     Inr (ResponseUtil_error (i18n_t ''function.create.maxCount'' [(''count'', ArgNum 2)])) \<and>
   [(''count'', ArgNum 2)] =
     [(''count'', ArgNum (MAX_FUNCTION_COUNT
        (findApplicationBundle bundleService (scenario_db [''f1'', ''f2'', ''f3'']) ''A'')))] \<and>
   count (functionService scenario_compiler) (scenario_db [''f1'', ''f2'', ''f3'']) ''A'' = 3"
proof -
  have h: "fst (FunctionController_create (functionService scenario_compiler) bundleService ''A''
          (create_dto ''f9'') ''u1'' (scenario_db [''f1'', ''f2'', ''f3''])) =
     Inr (ResponseUtil_error (i18n_t ''function.create.maxCount'' [(''count'', ArgNum 2)]))"
    by (simp add: eval_defs)
  have c: "count (functionService scenario_compiler) (scenario_db [''f1'', ''f2'', ''f3'']) ''A'' = 3"
    by (simp add: eval_defs)
  from create_denial_carries_limit [OF h] h c show ?thesis by simp
qed

text \<open>
  C9.  When no bundle is found for the application, or the bundle has no
  limitCountOfCloudFunction, or that limit is 0, the effective limit is 0: no
  CreateFunction request succeeds and none changes the state, whatever the count is (the
  very first request included), and a request that reaches the quota check (its body
  passes validation and its name is free) is answered with the limit-reached error.
\<close>

theorem create_without_limit_denied:
  assumes "findApplicationBundle bs st appid = None \<or>
           bundle_limit (findApplicationBundle bs st appid) = None \<or>
           bundle_limit (findApplicationBundle bs st appid) = Some 0"
  shows "MAX_FUNCTION_COUNT (findApplicationBundle bs st appid) = 0
       \<and> (\<forall>f. fst (FunctionController_create fs bs appid dto userid st) \<noteq> Inr (ResponseUtil_ok f))
       \<and> snd (snd (FunctionController_create fs bs appid dto userid st)) = st
       \<and> (\<not> truthy (validate dto) \<and> findOne fs st appid (name dto) = None \<longrightarrow>
            FunctionController_create fs bs appid dto userid st =
              (Inr (ResponseUtil_error
                      (i18n_t ''function.create.maxCount'' [(''count'', ArgNum 0)])),
               [FindOne appid (name dto), FindApplicationBundle appid, Count appid], st))"
proof -
  have m: "MAX_FUNCTION_COUNT (findApplicationBundle bs st appid) = 0"
    using assms by (auto simp: MAX_FUNCTION_COUNT_def or_zero_def bundle_limit_def)
  have a: "\<forall>f. fst (FunctionController_create fs bs appid dto userid st) \<noteq> Inr (ResponseUtil_ok f)"
    using create_ok_cases [of fs bs appid dto userid st] m by fastforce
  have b: "snd (snd (FunctionController_create fs bs appid dto userid st)) = st"
    using create_state_cases [of fs bs appid dto userid st] m by fastforce
  have c: "\<not> truthy (validate dto) \<and> findOne fs st appid (name dto) = None \<longrightarrow>
            FunctionController_create fs bs appid dto userid st =
              (Inr (ResponseUtil_error
                      (i18n_t ''function.create.maxCount'' [(''count'', ArgNum 0)])),
               [FindOne appid (name dto), FindApplicationBundle appid, Count appid], st)"
    using create_denied [of dto fs st appid bs userid] m by auto
  show ?thesis using m a b c by blast
qed

theorem create_without_limit_denied_witness:
  "findApplicationBundle bundleService (empty_db []) ''A'' = None \<and>
   count (functionService scenario_compiler) (empty_db []) ''A'' = 0 \<and>
   \<not> truthy (validate (create_dto ''f1'')) \<and>
   findOne (functionService scenario_compiler) (empty_db []) ''A'' (name (create_dto ''f1'')) = None \<and>
   MAX_FUNCTION_COUNT (findApplicationBundle bundleService (empty_db []) ''A'') = 0 \<and>
   FunctionController_create (functionService scenario_compiler) bundleService ''A''
       (create_dto ''f1'') ''u1'' (empty_db []) =
     (Inr (ResponseUtil_error (i18n_t ''function.create.maxCount'' [(''count'', ArgNum 0)])),
      [FindOne ''A'' ''f1'', FindApplicationBundle ''A'', Count ''A''], empty_db []) \<and>
   bundle_limit (findApplicationBundle bundleService (empty_db [(''A'', bundle_with_limit 0)]) ''A'')
     = Some 0 \<and>
   FunctionController_create (functionService scenario_compiler) bundleService ''A''
       (create_dto ''f1'') ''u1'' (empty_db [(''A'', bundle_with_limit 0)]) =
     (Inr (ResponseUtil_error (i18n_t ''function.create.maxCount'' [(''count'', ArgNum 0)])),
      [FindOne ''A'' ''f1'', FindApplicationBundle ''A'', Count ''A''],
      empty_db [(''A'', bundle_with_limit 0)])"
proof -
  have h1: "findApplicationBundle bundleService (empty_db []) ''A'' = None"
    by (simp add: eval_defs)
  have h1': "findApplicationBundle bundleService (empty_db []) ''A'' = None \<or>
           bundle_limit (findApplicationBundle bundleService (empty_db []) ''A'') = None \<or>
           bundle_limit (findApplicationBundle bundleService (empty_db []) ''A'') = Some 0"
    using h1 by simp
  have h2: "bundle_limit (findApplicationBundle bundleService
              (empty_db [(''A'', bundle_with_limit 0)]) ''A'') = Some 0"
    by (simp add: eval_defs)
  have h2': "findApplicationBundle bundleService (empty_db [(''A'', bundle_with_limit 0)]) ''A'' = None \<or>
           bundle_limit (findApplicationBundle bundleService (empty_db [(''A'', bundle_with_limit 0)]) ''A'') = None \<or>
           bundle_limit (findApplicationBundle bundleService (empty_db [(''A'', bundle_with_limit 0)]) ''A'') = Some 0"
    using h2 by simp
  have c: "count (functionService scenario_compiler) (empty_db []) ''A'' = 0"
    by (simp add: eval_defs)
  have v: "\<not> truthy (validate (create_dto ''f1''))"
    by (simp add: eval_defs)
  have n1: "findOne (functionService scenario_compiler) (empty_db []) ''A''
              (name (create_dto ''f1'')) = None"
    by (simp add: eval_defs)
  have n2: "findOne (functionService scenario_compiler) (empty_db [(''A'', bundle_with_limit 0)]) ''A''
              (name (create_dto ''f1'')) = None"
    by (simp add: eval_defs)
  from create_without_limit_denied [OF h1', of "functionService scenario_compiler"
      "create_dto ''f1''" "''u1''"]
    create_without_limit_denied [OF h2', of "functionService scenario_compiler"
      "create_dto ''f1''" "''u1''"]
    h1 h2 c v n1 n2
  show ?thesis by (simp add: create_dto_def)
qed



text \<open>
  C4.  With the Function Registry of the specification: when the function is found, has a
  deployed artifact \<open>a\<close>, and the compile of the submitted code fails, the CompileFunction
  call leaves the whole state as it was; the function found afterwards still has
  \<open>a\<close> as its currentArtifact.  Routes are derived from this state, so the deployed
  version keeps serving.
\<close>

theorem compile_failure_keeps_artifact:
  assumes found: "FunctionService_findOne db appid nm = Some func"
    and deployed: "currentArtifact func = Some a"
    and code: "truthy (compile_code dto)"
    and fails: "fst (FunctionService_compile cmp db func dto) = Inl err"
  shows "snd (snd (FunctionController_compile (functionService cmp) appid nm dto db)) = db
       \<and> map_option currentArtifact
           (FunctionService_findOne
              (snd (snd (FunctionController_compile (functionService cmp) appid nm dto db)))
              appid nm) = Some (Some a)"
proof -
  have f: "findOne (functionService cmp) db appid nm = Some func"
    using found by (simp add: functionService_def)
  have "snd (snd (FunctionController_compile (functionService cmp) appid nm dto db)) =
          snd (FunctionService_compile cmp db func dto)"
    using compile_found_state [OF code f] by (simp add: functionService_def)
  then have "snd (snd (FunctionController_compile (functionService cmp) appid nm dto db)) = db"
    using FunctionService_compile_failure_state [OF fails] by simp
  then show ?thesis using found deployed by simp
qed

theorem compile_failure_keeps_artifact_witness:
  "FunctionService_findOne deployed_db ''A'' ''f1'' = Some (stored ''A'' ''f1'' (Some deployed_artifact)) \<and>
   currentArtifact (stored ''A'' ''f1'' (Some deployed_artifact)) = Some deployed_artifact \<and>
   truthy (compile_code \<lparr>compile_code = Some ''syntax error''\<rparr>) \<and>
   fst (FunctionService_compile scenario_compiler deployed_db
          (stored ''A'' ''f1'' (Some deployed_artifact)) \<lparr>compile_code = Some ''syntax error''\<rparr>) =
     Inl (CompileError ''syntax'' [''unexpected token'']) \<and>
   snd (snd (scenario_compile ''syntax error'' deployed_db)) = deployed_db \<and>
   map_option currentArtifact
     (FunctionService_findOne (snd (snd (scenario_compile ''syntax error'' deployed_db))) ''A'' ''f1'')
     = Some (Some deployed_artifact)"
proof -
  have h1: "FunctionService_findOne deployed_db ''A'' ''f1'' =
              Some (stored ''A'' ''f1'' (Some deployed_artifact))"
    by (simp add: eval_defs compile_eval)
  have h2: "currentArtifact (stored ''A'' ''f1'' (Some deployed_artifact)) = Some deployed_artifact"
    by (simp add: stored_def)
  have h3: "truthy (compile_code \<lparr>compile_code = Some ''syntax error''\<rparr>)"
    by (simp add: truthy_def)
  have h4: "fst (FunctionService_compile scenario_compiler deployed_db
          (stored ''A'' ''f1'' (Some deployed_artifact)) \<lparr>compile_code = Some ''syntax error''\<rparr>) =
     Inl (CompileError ''syntax'' [''unexpected token''])"
    by (simp add: eval_defs compile_eval)
  from compile_failure_keeps_artifact [OF h1 h2 h3 h4] h1 h2 h3 h4
  show ?thesis by (simp add: scenario_compile_def)
qed

text \<open>
  C7.  DeleteFunction for a name the lookup does not find (never created, or deleted)
  throws NotFound after the lookup alone: the service's remove is not called and the state
  is unchanged, whatever the services are.  With the Function Registry of the
  specification, after any DeleteFunction call a further DeleteFunction for the same
  (appid, name) is such a call: it throws NotFound and changes nothing, so a deletion
  does not succeed twice.
\<close>

theorem remove_twice_not_found:
  "(findOne fs st appid nm = None \<longrightarrow>
      FunctionController_remove fs appid nm st =
        (Inl (HttpException (i18n_t ''function.common.notFound'' [(''name'', ArgStr nm)])
                NOT_FOUND),
         [FindOne appid nm], st))
   \<and> (let db1 = snd (snd (FunctionController_remove (functionService cmp) appid nm db))
      in FunctionService_findOne db1 appid nm = None \<and>
         FunctionController_remove (functionService cmp) appid nm db1 =
           (Inl (HttpException (i18n_t ''function.common.notFound'' [(''name'', ArgStr nm)])
                   NOT_FOUND),
            [FindOne appid nm], db1))"
proof -
  have n: "FunctionService_findOne
          (snd (snd (FunctionController_remove (functionService cmp) appid nm db))) appid nm = None"
    by (rule findOne_after_controller_remove)
  then have "findOne (functionService cmp)
          (snd (snd (FunctionController_remove (functionService cmp) appid nm db))) appid nm = None"
    by (simp add: functionService_def)
  then show ?thesis
    using n by (simp add: remove_not_found Let_def)
qed

theorem remove_twice_not_found_witness:
  "scenario_remove ''f1'' (scenario_db [''f1'']) =
     (Inr (ResponseUtil_ok (stored ''A'' ''f1'' None)), [FindOne ''A'' ''f1'', Remove ''A'' ''f1''],
      deleted_db) \<and>
   findOne (functionService scenario_compiler) deleted_db ''A'' ''f1'' = None \<and>
   scenario_remove ''f1'' deleted_db =
     (Inl (HttpException (i18n_t ''function.common.notFound'' [(''name'', ArgStr ''f1'')]) 404),
      [FindOne ''A'' ''f1''], deleted_db)"
proof -
  have r: "scenario_remove ''f1'' (scenario_db [''f1'']) =
     (Inr (ResponseUtil_ok (stored ''A'' ''f1'' None)), [FindOne ''A'' ''f1'', Remove ''A'' ''f1''],
      deleted_db)"
    by (simp add: eval_defs remove_eval)
  have n: "findOne (functionService scenario_compiler) deleted_db ''A'' ''f1'' = None"
    by (simp add: eval_defs remove_eval)
  from remove_twice_not_found [of "functionService scenario_compiler" deleted_db "''A''" "''f1''"
      scenario_compiler "scenario_db [''f1'']"] r n
  show ?thesis by (simp add: scenario_remove_def NOT_FOUND_def)
qed

end
